theory Spec2Isabelle
  imports Main "HOL-Library.Word"
begin

section \<open>Data model (timer.h, session_manager.h)\<close>

text \<open>
  \<^verbatim>\<open>uint32_t\<close> is \<open>32 word\<close>: \<open>+\<close> and \<open>-\<close> wrap around and \<open>\<le>\<close>, \<open><\<close> compare
  the unsigned values. \<^verbatim>\<open>uint8_t\<close> is \<open>8 word\<close>.

  \<^verbatim>\<open>time_t\<close> is a signed integer type whose width the sources do not fix; a
  timestamp is modelled as an \<open>int\<close>. The difference of two timestamps is the
  mathematical difference (C leaves signed overflow undefined), and the cast
  \<^verbatim>\<open>(uint32_t)(now - start)\<close> is \<open>word_of_int\<close>, reduction modulo \<open>2 ^ 32\<close>.

  Every call of \<^verbatim>\<open>time(&now)\<close> reads the clock. Each timer operation reads
  it at most once on any path that changes the timer, so the reading is the
  parameter \<open>now\<close> of the operation. \<^verbatim>\<open>Serial.printf\<close> and the values computed
  only for it are left out.
\<close>

type_synonym uint32_t = "32 word"
type_synonym uint8_t = "8 word"
type_synonym time_t = int

datatype TimerState = STOPPED | RUNNING | EXPIRED

text \<open>The private fields \<^verbatim>\<open>_state\<close>, \<^verbatim>\<open>_totalAllowanceSeconds\<close>,
  \<^verbatim>\<open>_consumedTodaySeconds\<close>, \<^verbatim>\<open>_sessionStartTime\<close> of class ScreenTimer.\<close>

record ScreenTimer =
  t_state :: TimerState
  t_totalAllowanceSeconds :: uint32_t
  t_consumedTodaySeconds :: uint32_t
  t_sessionStartTime :: time_t

record SessionSnapshot =
  consumedTodaySeconds :: uint32_t
  sessionStartTime :: time_t
  timerState :: TimerState
  weekday :: uint8_t
  isValid :: bool

section \<open>ScreenTimer (timer.cpp)\<close>

text \<open>The constructor \<^verbatim>\<open>ScreenTimer::ScreenTimer()\<close>.\<close>

definition ScreenTimer_new :: ScreenTimer where
  "ScreenTimer_new =
     \<lparr>t_state = STOPPED, t_totalAllowanceSeconds = 0,
      t_consumedTodaySeconds = 0, t_sessionStartTime = 0\<rparr>"

text \<open>\<^verbatim>\<open>ScreenTimer::begin\<close> (\<open>begin\<close> is a keyword of the theory language).\<close>

definition timer_begin :: "uint32_t \<Rightarrow> uint32_t \<Rightarrow> ScreenTimer \<Rightarrow> ScreenTimer" where
  "timer_begin allowanceSeconds consumedSeconds t =
     t\<lparr>t_totalAllowanceSeconds := allowanceSeconds,
       t_consumedTodaySeconds := consumedSeconds,
       t_sessionStartTime := 0,
       t_state := (if consumedSeconds \<ge> allowanceSeconds then EXPIRED else STOPPED)\<rparr>"

definition reset :: "uint32_t \<Rightarrow> ScreenTimer \<Rightarrow> ScreenTimer" where
  "reset allowanceSeconds t =
     (let t1 = (if allowanceSeconds > 0
                then t\<lparr>t_totalAllowanceSeconds := allowanceSeconds\<rparr> else t)
      in t1\<lparr>t_consumedTodaySeconds := 0, t_sessionStartTime := 0, t_state := STOPPED\<rparr>)"

definition calculateCurrentSessionSeconds :: "time_t \<Rightarrow> ScreenTimer \<Rightarrow> uint32_t" where
  "calculateCurrentSessionSeconds now t =
     (if t_state t \<noteq> RUNNING \<or> t_sessionStartTime t = 0 then 0
      else if now \<le> t_sessionStartTime t then 0
      else word_of_int (now - t_sessionStartTime t))"

definition getTotalConsumedSeconds :: "time_t \<Rightarrow> ScreenTimer \<Rightarrow> uint32_t" where
  "getTotalConsumedSeconds now t =
     t_consumedTodaySeconds t + calculateCurrentSessionSeconds now t"

definition calculateRemainingSeconds :: "time_t \<Rightarrow> ScreenTimer \<Rightarrow> uint32_t" where
  "calculateRemainingSeconds now t =
     (let totalConsumed = getTotalConsumedSeconds now t
      in if totalConsumed \<ge> t_totalAllowanceSeconds t then 0
         else t_totalAllowanceSeconds t - totalConsumed)"

definition start :: "time_t \<Rightarrow> ScreenTimer \<Rightarrow> bool \<times> ScreenTimer" where
  "start now t =
     (let remaining = calculateRemainingSeconds now t
      in if remaining = 0 then (False, t\<lparr>t_state := EXPIRED\<rparr>)
         else if t_state t \<noteq> RUNNING
              then (True, t\<lparr>t_sessionStartTime := now, t_state := RUNNING\<rparr>)
              else (True, t))"

text \<open>The local \<^verbatim>\<open>sessionElapsed\<close> of \<^verbatim>\<open>startFromTimestamp\<close>, after the
  future timestamp has been replaced by \<open>now\<close>.\<close>

definition sessionElapsed :: "time_t \<Rightarrow> time_t \<Rightarrow> uint32_t" where
  "sessionElapsed sessionStart now =
     (let sessionStart' = (if sessionStart > now then now else sessionStart)
      in word_of_int (now - sessionStart'))"

definition startFromTimestamp :: "time_t \<Rightarrow> time_t \<Rightarrow> ScreenTimer \<Rightarrow> bool \<times> ScreenTimer" where
  "startFromTimestamp sessionStart now t =
     (let sessionStart' = (if sessionStart > now then now else sessionStart);
          totalConsumed = t_consumedTodaySeconds t + sessionElapsed sessionStart now
      in if totalConsumed \<ge> t_totalAllowanceSeconds t
         then (False, t\<lparr>t_state := EXPIRED,
                         t_consumedTodaySeconds := t_totalAllowanceSeconds t,
                         t_sessionStartTime := 0\<rparr>)
         else (True, t\<lparr>t_sessionStartTime := sessionStart', t_state := RUNNING\<rparr>))"

text \<open>\<^verbatim>\<open>stop\<close> returns the actual duration and commits the effective one.\<close>

definition stop :: "uint32_t \<Rightarrow> time_t \<Rightarrow> ScreenTimer \<Rightarrow> uint32_t \<times> ScreenTimer" where
  "stop minimumDuration now t =
     (if t_state t \<noteq> RUNNING then (0, t)
      else let actualSeconds = calculateCurrentSessionSeconds now t;
               effectiveSeconds =
                 (if minimumDuration > 0 \<and> actualSeconds < minimumDuration
                  then minimumDuration else actualSeconds)
           in (actualSeconds,
               t\<lparr>t_consumedTodaySeconds := t_consumedTodaySeconds t + effectiveSeconds,
                 t_sessionStartTime := 0,
                 t_state := STOPPED\<rparr>))"

definition abortSession :: "ScreenTimer \<Rightarrow> ScreenTimer" where
  "abortSession t =
     (if t_state t = RUNNING then t\<lparr>t_sessionStartTime := 0, t_state := STOPPED\<rparr> else t)"

definition toggle :: "time_t \<Rightarrow> ScreenTimer \<Rightarrow> bool \<times> ScreenTimer" where
  "toggle now t =
     (if t_state t = RUNNING then (False, snd (stop 0 now t)) else start now t)"

definition update :: "time_t \<Rightarrow> ScreenTimer \<Rightarrow> ScreenTimer" where
  "update now t =
     (if t_state t \<noteq> RUNNING then t
      else let remaining = calculateRemainingSeconds now t
           in if remaining = 0
              then t\<lparr>t_consumedTodaySeconds := t_totalAllowanceSeconds t,
                     t_sessionStartTime := 0,
                     t_state := EXPIRED\<rparr>
              else t)"

definition getState :: "ScreenTimer \<Rightarrow> TimerState" where
  "getState t = t_state t"

definition isRunning :: "ScreenTimer \<Rightarrow> bool" where
  "isRunning t = (t_state t = RUNNING)"

definition isExpired :: "ScreenTimer \<Rightarrow> bool" where
  "isExpired t = (t_state t = EXPIRED)"

definition getTotalAllowance :: "ScreenTimer \<Rightarrow> uint32_t" where
  "getTotalAllowance t = t_totalAllowanceSeconds t"

definition getCompletedSessionsSeconds :: "ScreenTimer \<Rightarrow> uint32_t" where
  "getCompletedSessionsSeconds t = t_consumedTodaySeconds t"

definition getCurrentSessionSeconds :: "time_t \<Rightarrow> ScreenTimer \<Rightarrow> uint32_t" where
  "getCurrentSessionSeconds now t = calculateCurrentSessionSeconds now t"

definition getSessionStartTime :: "ScreenTimer \<Rightarrow> time_t" where
  "getSessionStartTime t = t_sessionStartTime t"

definition setConsumedTodaySeconds :: "uint32_t \<Rightarrow> ScreenTimer \<Rightarrow> ScreenTimer" where
  "setConsumedTodaySeconds seconds t =
     (let t1 = t\<lparr>t_consumedTodaySeconds := seconds\<rparr>
      in if t_consumedTodaySeconds t1 \<ge> t_totalAllowanceSeconds t1
         then t1\<lparr>t_state := EXPIRED, t_sessionStartTime := 0\<rparr>
         else if t_state t1 = EXPIRED then t1\<lparr>t_state := STOPPED\<rparr>
         else t1)"

definition setAllowance :: "uint32_t \<Rightarrow> ScreenTimer \<Rightarrow> ScreenTimer" where
  "setAllowance allowanceSeconds t =
     (if allowanceSeconds = 0 then t
      else let t1 = t\<lparr>t_totalAllowanceSeconds := allowanceSeconds\<rparr>
           in if t_consumedTodaySeconds t1 \<ge> t_totalAllowanceSeconds t1
              then t1\<lparr>t_state := EXPIRED, t_sessionStartTime := 0\<rparr>
              else if t_state t1 = EXPIRED then t1\<lparr>t_state := STOPPED\<rparr>
              else t1)"

definition addAllowance :: "uint32_t \<Rightarrow> time_t \<Rightarrow> ScreenTimer \<Rightarrow> ScreenTimer" where
  "addAllowance additionalSeconds now t =
     (let t1 = t\<lparr>t_totalAllowanceSeconds := t_totalAllowanceSeconds t + additionalSeconds\<rparr>
      in if t_state t1 = EXPIRED \<and> calculateRemainingSeconds now t1 > 0
         then t1\<lparr>t_state := STOPPED\<rparr>
         else t1)"

section \<open>SessionManager (session_manager.cpp)\<close>

text \<open>\<^verbatim>\<open>createSnapshot\<close>; the weekday read from the application state is the
  parameter \<open>currentWeekday\<close>.\<close>

definition createSnapshot :: "uint8_t \<Rightarrow> ScreenTimer \<Rightarrow> SessionSnapshot" where
  "createSnapshot currentWeekday t =
     \<lparr>consumedTodaySeconds = getCompletedSessionsSeconds t,
      sessionStartTime = getSessionStartTime t,
      timerState = getState t,
      weekday = currentWeekday,
      isValid = True\<rparr>"

definition restoreFromSnapshot ::
  "SessionSnapshot \<Rightarrow> uint8_t \<Rightarrow> time_t \<Rightarrow> ScreenTimer \<Rightarrow> bool \<times> ScreenTimer" where
  "restoreFromSnapshot snapshot currentWeekday now t =
     (if \<not> isValid snapshot then (False, t)
      else if weekday snapshot \<noteq> 0xFF \<and> weekday snapshot \<noteq> currentWeekday then (False, t)
      else let t1 = setConsumedTodaySeconds (consumedTodaySeconds snapshot) t
           in if timerState snapshot = RUNNING \<and> sessionStartTime snapshot > 0
              then (let (started, t2) = startFromTimestamp (sessionStartTime snapshot) now t1
                    in if started then (True, t2) else (False, t2))
              else (True, t1))"

section \<open>Sequences of timer calls\<close>

text \<open>The invariant stated for the timer: Running exactly when a session start
  timestamp is recorded.\<close>

definition timer_inv :: "ScreenTimer \<Rightarrow> bool" where
  "timer_inv t = ((t_state t = RUNNING) = (t_sessionStartTime t \<noteq> 0))"

text \<open>A call of \<^verbatim>\<open>start()\<close>, \<^verbatim>\<open>update()\<close> or \<^verbatim>\<open>stop(0)\<close>, with the clock reading
  at the call.\<close>

datatype TimerCall = Start time_t | Update time_t | Stop time_t

fun step :: "TimerCall \<Rightarrow> ScreenTimer \<Rightarrow> ScreenTimer" where
  "step (Start now) t = snd (start now t)"
| "step (Update now) t = update now t"
| "step (Stop now) t = snd (stop 0 now t)"

fun run :: "TimerCall list \<Rightarrow> ScreenTimer \<Rightarrow> ScreenTimer" where
  "run [] t = t"
| "run (c # cs) t = run cs (step c t)"

text \<open>
  The sessions of a sequence of calls, read from the calls and their clock
  readings alone. The account is the pair of the wall-clock seconds consumed so
  far and the clock reading at which the open session started, if one is open.
  \<^verbatim>\<open>start()\<close> opens a session when none is open and allowance remains;
  \<^verbatim>\<open>stop(0)\<close> ends the open session; \<^verbatim>\<open>update()\<close> ends it when the seconds
  consumed, with those elapsed since the session started, have reached the
  allowance \<open>A\<close>. A session that ends has lasted from the clock reading of the
  \<^verbatim>\<open>start()\<close> that opened it to the clock reading of the call that ends it.
\<close>

type_synonym account = "int \<times> time_t option"

fun sessionStep :: "int \<Rightarrow> TimerCall \<Rightarrow> account \<Rightarrow> account" where
  "sessionStep A (Start now) (c, None) = (c, if c < A then Some now else None)"
| "sessionStep A (Start now) (c, Some s) = (c, Some s)"
| "sessionStep A (Update now) (c, None) = (c, None)"
| "sessionStep A (Update now) (c, Some s) =
     (if A \<le> c + (now - s) then (c + (now - s), None) else (c, Some s))"
| "sessionStep A (Stop now) (c, None) = (c, None)"
| "sessionStep A (Stop now) (c, Some s) = (c + (now - s), None)"

fun sessionRun :: "int \<Rightarrow> TimerCall list \<Rightarrow> account \<Rightarrow> account" where
  "sessionRun A [] g = g"
| "sessionRun A (x # xs) g = sessionRun A xs (sessionStep A x g)"

text \<open>The wall-clock duration of each session that ends in a sequence of calls,
  in order.\<close>

fun sessionDurations :: "int \<Rightarrow> TimerCall list \<Rightarrow> account \<Rightarrow> int list" where
  "sessionDurations A [] g = []"
| "sessionDurations A (Stop now # xs) (c, Some s) =
     (now - s) # sessionDurations A xs (sessionStep A (Stop now) (c, Some s))"
| "sessionDurations A (Update now # xs) (c, Some s) =
     (if A \<le> c + (now - s) then [now - s] else [])
     @ sessionDurations A xs (sessionStep A (Update now) (c, Some s))"
| "sessionDurations A (Stop now # xs) (c, None) =
     sessionDurations A xs (sessionStep A (Stop now) (c, None))"
| "sessionDurations A (Update now # xs) (c, None) =
     sessionDurations A xs (sessionStep A (Update now) (c, None))"
| "sessionDurations A (Start now # xs) g = sessionDurations A xs (sessionStep A (Start now) g)"

text \<open>
  An orderly sequence of calls, again read from the calls alone: a \<^verbatim>\<open>start()\<close>
  that opens a session comes at a clock reading other than 0; while a session
  is open the clock does not go back behind its start; a \<^verbatim>\<open>start()\<close> during an
  open session comes while allowance remains; every \<^verbatim>\<open>update()\<close> during an open
  session comes no later than the second at which the allowance is used up;
  and the seconds consumed stay below \<open>2 ^ 32\<close>.
\<close>

fun callOrderly :: "int \<Rightarrow> TimerCall \<Rightarrow> account \<Rightarrow> bool" where
  "callOrderly A (Start now) (c, None) = (c < A \<longrightarrow> now \<noteq> 0)"
| "callOrderly A (Start now) (c, Some s) = (s \<le> now \<and> c + (now - s) < A)"
| "callOrderly A (Update now) (c, Some s) = (s \<le> now \<and> c + (now - s) \<le> A)"
| "callOrderly A (Stop now) (c, Some s) = (s \<le> now \<and> c + (now - s) < 2 ^ 32)"
| "callOrderly A x (c, None) = True"

fun orderly :: "int \<Rightarrow> TimerCall list \<Rightarrow> account \<Rightarrow> bool" where
  "orderly A [] g = True"
| "orderly A (x # xs) g = (callOrderly A x g \<and> orderly A xs (sessionStep A x g))"

text \<open>The timer agrees with an account: it has committed the seconds consumed,
  and it is Running, from the same start, exactly when a session is open.\<close>

definition linked :: "ScreenTimer \<Rightarrow> account \<Rightarrow> bool" where
  "linked t g =
     (uint (t_consumedTodaySeconds t) = fst g \<and>
      (case snd g of
         None \<Rightarrow> t_state t \<noteq> RUNNING
       | Some s \<Rightarrow> t_state t = RUNNING \<and> t_sessionStartTime t = s \<and> s \<noteq> 0))"

section \<open>Evaluation rules and arithmetic of elapsed seconds\<close>

lemmas timer_defs = timer_begin_def reset_def calculateCurrentSessionSeconds_def
  getTotalConsumedSeconds_def calculateRemainingSeconds_def start_def sessionElapsed_def
  startFromTimestamp_def stop_def abortSession_def toggle_def update_def
  setConsumedTodaySeconds_def setAllowance_def addAllowance_def ScreenTimer_new_def
  isExpired_def isRunning_def getState_def getSessionStartTime_def
  getCompletedSessionsSeconds_def createSnapshot_def restoreFromSnapshot_def

lemma uint_elapsed:
  fixes e :: int
  assumes "0 \<le> e" "e < 2 ^ 32"
  shows "uint (word_of_int e :: 32 word) = e"
  using assms by (simp add: uint_word_of_int take_bit_eq_mod)

lemma uint_elapsed_le:
  fixes e :: int
  assumes "0 \<le> e"
  shows "uint (word_of_int e :: 32 word) \<le> e"
  using assms by (simp add: uint_word_of_int take_bit_eq_mod zmod_le_nonneg_dividend)

lemma uint_add_elapsed:
  fixes e :: int and c :: "32 word"
  assumes "0 \<le> e" "uint c + e < 2 ^ 32"
  shows "uint (c + word_of_int e) = uint c + e"
proof -
  have e: "e < 2 ^ 32" using assms uint_ge_0 [of c] by linarith
  have "uint (c + word_of_int e) = (uint c + uint (word_of_int e :: 32 word)) mod 2 ^ 32"
    by (simp add: uint_word_ariths)
  also have "\<dots> = (uint c + e) mod 2 ^ 32"
    using assms(1) e by (simp add: uint_elapsed)
  also have "\<dots> = uint c + e"
    using assms uint_ge_0 [of c] by (simp add: mod_pos_pos_trivial)
  finally show ?thesis .
qed

lemma calc_running:
  assumes "t_state t = RUNNING" "t_sessionStartTime t \<noteq> 0" "t_sessionStartTime t \<le> now"
  shows "calculateCurrentSessionSeconds now t = word_of_int (now - t_sessionStartTime t)"
  using assms by (auto simp add: calculateCurrentSessionSeconds_def simp del: of_int_diff)

lemma calc_not_running:
  "t_state t \<noteq> RUNNING \<Longrightarrow> calculateCurrentSessionSeconds now t = 0"
  by (simp add: calculateCurrentSessionSeconds_def)

lemma remaining_idle:
  assumes "t_state t \<noteq> RUNNING"
  shows "uint (calculateRemainingSeconds now t)
       = max 0 (uint (t_totalAllowanceSeconds t) - uint (t_consumedTodaySeconds t))"
proof (cases "t_totalAllowanceSeconds t \<le> t_consumedTodaySeconds t")
  case True
  then have "uint (t_totalAllowanceSeconds t) \<le> uint (t_consumedTodaySeconds t)"
    by (simp add: word_le_def)
  then show ?thesis
    using True assms
    by (simp add: calculateRemainingSeconds_def getTotalConsumedSeconds_def calc_not_running)
next
  case False
  then have lt: "uint (t_consumedTodaySeconds t) \<le> uint (t_totalAllowanceSeconds t)"
    by (simp add: word_le_def)
  have "uint (t_totalAllowanceSeconds t - t_consumedTodaySeconds t)
      = uint (t_totalAllowanceSeconds t) - uint (t_consumedTodaySeconds t)"
    using lt by (simp add: uint_sub_if_size)
  then show ?thesis
    using False assms lt
    by (simp add: calculateRemainingSeconds_def getTotalConsumedSeconds_def calc_not_running)
qed

section \<open>Stopping a session\<close>

text \<open>
  C4. Whenever \<^verbatim>\<open>stop(minimumDuration = M)\<close> with \<open>M > 0\<close> is called on a Running
  timer whose actual elapsed time \<open>e\<close> is below \<open>M\<close>, exactly \<open>M\<close> seconds are added
  to \<^verbatim>\<open>consumedTodaySeconds\<close>, and the value returned is \<open>e\<close>, the elapsed time
  the timer measures, not \<open>M\<close>. For a session started at a recorded timestamp
  not after \<open>now\<close> and less than \<open>2 ^ 32\<close> seconds ago, \<open>e\<close> is the wall-clock
  difference.
\<close>

theorem stop_minimum_duration_clamp:
  assumes "t_state t = RUNNING" "0 < M" "calculateCurrentSessionSeconds now t < M"
  shows "fst (stop M now t) = calculateCurrentSessionSeconds now t
       \<and> t_consumedTodaySeconds (snd (stop M now t)) = t_consumedTodaySeconds t + M
       \<and> t_state (snd (stop M now t)) = STOPPED
       \<and> t_sessionStartTime (snd (stop M now t)) = 0
       \<and> (t_sessionStartTime t \<noteq> 0 \<and> t_sessionStartTime t \<le> now
            \<and> now - t_sessionStartTime t < 2 ^ 32
          \<longrightarrow> uint (fst (stop M now t)) = now - t_sessionStartTime t)"
  using assms
  by (auto simp add: stop_def Let_def calculateCurrentSessionSeconds_def uint_elapsed
      simp del: of_int_diff)

theorem stop_minimum_duration_clamp_witness:
  "t_state \<lparr>t_state = RUNNING, t_totalAllowanceSeconds = 3600, t_consumedTodaySeconds = 100, t_sessionStartTime = 1000\<rparr> = RUNNING
   \<and> (0 :: 32 word) < 300
   \<and> calculateCurrentSessionSeconds 1020 \<lparr>t_state = RUNNING, t_totalAllowanceSeconds = 3600, t_consumedTodaySeconds = 100, t_sessionStartTime = 1000\<rparr> < 300
   \<and> t_sessionStartTime \<lparr>t_state = RUNNING, t_totalAllowanceSeconds = 3600, t_consumedTodaySeconds = 100, t_sessionStartTime = 1000\<rparr> \<noteq> 0 \<and> t_sessionStartTime \<lparr>t_state = RUNNING, t_totalAllowanceSeconds = 3600, t_consumedTodaySeconds = 100, t_sessionStartTime = 1000\<rparr> \<le> 1020
   \<and> 1020 - t_sessionStartTime \<lparr>t_state = RUNNING, t_totalAllowanceSeconds = 3600, t_consumedTodaySeconds = 100, t_sessionStartTime = 1000\<rparr> < 2 ^ 32
   \<and> stop 300 1020 \<lparr>t_state = RUNNING, t_totalAllowanceSeconds = 3600, t_consumedTodaySeconds = 100, t_sessionStartTime = 1000\<rparr>
       = (20, \<lparr>t_state = STOPPED, t_totalAllowanceSeconds = 3600,
               t_consumedTodaySeconds = 400, t_sessionStartTime = 0\<rparr>)"
  using stop_minimum_duration_clamp
    [where t = "\<lparr>t_state = RUNNING, t_totalAllowanceSeconds = 3600,
                  t_consumedTodaySeconds = 100, t_sessionStartTime = 1000\<rparr>"
       and M = 300 and now = 1020]
  by (simp add: stop_def calculateCurrentSessionSeconds_def)

text \<open>
  C9. If \<^verbatim>\<open>stop(minimumDuration = M)\<close> commits a clamped minimum that pushes
  \<^verbatim>\<open>consumedTodaySeconds\<close> strictly beyond \<^verbatim>\<open>totalAllowanceSeconds\<close>, the state
  becomes Stopped, not Expired: \<^verbatim>\<open>calculateRemainingSeconds()\<close> is 0 while
  \<^verbatim>\<open>isExpired()\<close> is false, \<^verbatim>\<open>update()\<close> leaves the timer as it is, and the next
  \<^verbatim>\<open>start()\<close> returns false and sets the state to Expired.
\<close>

theorem stop_clamp_beyond_allowance:
  assumes "t_state t = RUNNING" "0 < M" "calculateCurrentSessionSeconds now t < M"
    "t_totalAllowanceSeconds t < t_consumedTodaySeconds t + M"
  shows "t_state (snd (stop M now t)) = STOPPED
       \<and> calculateRemainingSeconds now' (snd (stop M now t)) = 0
       \<and> \<not> isExpired (snd (stop M now t))
       \<and> update now' (snd (stop M now t)) = snd (stop M now t)
       \<and> start now'' (snd (stop M now t)) = (False, (snd (stop M now t))\<lparr>t_state := EXPIRED\<rparr>)"
  using assms order_less_imp_le [of "t_totalAllowanceSeconds t" "t_consumedTodaySeconds t + M"]
  by (simp add: stop_def Let_def calculateRemainingSeconds_def getTotalConsumedSeconds_def
       calculateCurrentSessionSeconds_def isExpired_def update_def start_def)

theorem stop_clamp_beyond_allowance_witness:
  "t_state \<lparr>t_state = RUNNING, t_totalAllowanceSeconds = 3600, t_consumedTodaySeconds = 3500, t_sessionStartTime = 1000\<rparr> = RUNNING
   \<and> (0 :: 32 word) < 300
   \<and> calculateCurrentSessionSeconds 1020 \<lparr>t_state = RUNNING, t_totalAllowanceSeconds = 3600, t_consumedTodaySeconds = 3500, t_sessionStartTime = 1000\<rparr> < 300
   \<and> t_totalAllowanceSeconds \<lparr>t_state = RUNNING, t_totalAllowanceSeconds = 3600, t_consumedTodaySeconds = 3500, t_sessionStartTime = 1000\<rparr> < t_consumedTodaySeconds \<lparr>t_state = RUNNING, t_totalAllowanceSeconds = 3600, t_consumedTodaySeconds = 3500, t_sessionStartTime = 1000\<rparr> + 300
   \<and> stop 300 1020 \<lparr>t_state = RUNNING, t_totalAllowanceSeconds = 3600, t_consumedTodaySeconds = 3500, t_sessionStartTime = 1000\<rparr>
       = (20, \<lparr>t_state = STOPPED, t_totalAllowanceSeconds = 3600,
               t_consumedTodaySeconds = 3800, t_sessionStartTime = 0\<rparr>)
   \<and> calculateRemainingSeconds 1021 (snd (stop 300 1020 \<lparr>t_state = RUNNING, t_totalAllowanceSeconds = 3600, t_consumedTodaySeconds = 3500, t_sessionStartTime = 1000\<rparr>)) = 0
   \<and> \<not> isExpired (snd (stop 300 1020 \<lparr>t_state = RUNNING, t_totalAllowanceSeconds = 3600, t_consumedTodaySeconds = 3500, t_sessionStartTime = 1000\<rparr>))
   \<and> start 1022 (snd (stop 300 1020 \<lparr>t_state = RUNNING, t_totalAllowanceSeconds = 3600, t_consumedTodaySeconds = 3500, t_sessionStartTime = 1000\<rparr>))
       = (False, \<lparr>t_state = EXPIRED, t_totalAllowanceSeconds = 3600,
                  t_consumedTodaySeconds = 3800, t_sessionStartTime = 0\<rparr>)"
  using stop_clamp_beyond_allowance
    [where t = "\<lparr>t_state = RUNNING, t_totalAllowanceSeconds = 3600,
                  t_consumedTodaySeconds = 3500, t_sessionStartTime = 1000\<rparr>"
       and M = 300 and now = 1020 and now' = 1021 and now'' = 1022]
  by (simp add: timer_defs)

section \<open>Elapsed seconds of the running session\<close>

text \<open>
  C10. The elapsed seconds of a session never underflow. \<^verbatim>\<open>startFromTimestamp\<close>
  called with a timestamp later than the current time behaves as if called
  with \<open>now\<close>: the elapsed seconds it computes are 0, and where consumed time is
  below the allowance the session resumes with start \<open>now\<close> and no elapsed time.
  \<^verbatim>\<open>calculateCurrentSessionSeconds\<close> returns 0 whenever \<open>now\<close> is not after the
  session start or the timer is not Running. So neither result exceeds the
  true difference \<open>now - start\<close> where that is positive, and both are 0 where it
  is not.
\<close>

theorem session_elapsed_no_underflow:
  "(ts > now \<longrightarrow> sessionElapsed ts now = 0
       \<and> startFromTimestamp ts now t = startFromTimestamp now now t
       \<and> (t_consumedTodaySeconds t < t_totalAllowanceSeconds t \<longrightarrow>
            startFromTimestamp ts now t
              = (True, t\<lparr>t_sessionStartTime := now, t_state := RUNNING\<rparr>)
          \<and> calculateCurrentSessionSeconds now (snd (startFromTimestamp ts now t)) = 0))
   \<and> (now \<le> t_sessionStartTime t \<or> t_state t \<noteq> RUNNING
        \<longrightarrow> calculateCurrentSessionSeconds now t = 0)
   \<and> uint (calculateCurrentSessionSeconds now t) \<le> max 0 (now - t_sessionStartTime t)
   \<and> uint (sessionElapsed ts now) \<le> max 0 (now - ts)"
  using uint_elapsed_le [of "now - t_sessionStartTime t"] uint_elapsed_le [of "now - ts"]
  by (auto simp add: sessionElapsed_def startFromTimestamp_def calculateCurrentSessionSeconds_def
       Let_def not_le simp del: of_int_diff)

theorem session_elapsed_no_underflow_witness:
  "(2000 :: int) > 1000
   \<and> t_consumedTodaySeconds \<lparr>t_state = RUNNING, t_totalAllowanceSeconds = 3600, t_consumedTodaySeconds = 100, t_sessionStartTime = 1500\<rparr> < t_totalAllowanceSeconds \<lparr>t_state = RUNNING, t_totalAllowanceSeconds = 3600, t_consumedTodaySeconds = 100, t_sessionStartTime = 1500\<rparr>
   \<and> (1000 \<le> t_sessionStartTime \<lparr>t_state = RUNNING, t_totalAllowanceSeconds = 3600, t_consumedTodaySeconds = 100, t_sessionStartTime = 1500\<rparr> \<or> t_state \<lparr>t_state = RUNNING, t_totalAllowanceSeconds = 3600, t_consumedTodaySeconds = 100, t_sessionStartTime = 1500\<rparr> \<noteq> RUNNING)
   \<and> sessionElapsed 2000 1000 = 0
   \<and> startFromTimestamp 2000 1000 \<lparr>t_state = RUNNING, t_totalAllowanceSeconds = 3600, t_consumedTodaySeconds = 100, t_sessionStartTime = 1500\<rparr>
       = (True, \<lparr>t_state = RUNNING, t_totalAllowanceSeconds = 3600,
                 t_consumedTodaySeconds = 100, t_sessionStartTime = 1000\<rparr>)
   \<and> calculateCurrentSessionSeconds 1000 \<lparr>t_state = RUNNING, t_totalAllowanceSeconds = 3600, t_consumedTodaySeconds = 100, t_sessionStartTime = 1500\<rparr> = 0"
  using session_elapsed_no_underflow
    [where now = 1000 and ts = 2000
       and t = "\<lparr>t_state = RUNNING, t_totalAllowanceSeconds = 3600,
                  t_consumedTodaySeconds = 100, t_sessionStartTime = 1500\<rparr>"]
  by (simp add: timer_defs)


section \<open>Snapshots and restoration\<close>

text \<open>
  C7. For every snapshot whose weekday is set (not \<open>0xFF\<close>) and differs from the
  current weekday given by the caller, \<^verbatim>\<open>restoreFromSnapshot\<close> returns false and
  leaves the timer as it was, whatever the snapshot holds otherwise: a Running
  state and a recent start timestamp make no difference.
\<close>

theorem restore_rejects_day_change:
  "weekday s \<noteq> 0xFF \<Longrightarrow> weekday s \<noteq> currentWeekday \<Longrightarrow>
     restoreFromSnapshot s currentWeekday now t = (False, t)"
  by (simp add: restoreFromSnapshot_def)

theorem restore_rejects_day_change_witness:
  "weekday \<lparr>consumedTodaySeconds = 600, sessionStartTime = 1000, timerState = RUNNING,
       weekday = 2, isValid = True\<rparr> \<noteq> 0xFF
   \<and> weekday \<lparr>consumedTodaySeconds = 600, sessionStartTime = 1000, timerState = RUNNING,
       weekday = 2, isValid = True\<rparr> \<noteq> 3
   \<and> restoreFromSnapshot \<lparr>consumedTodaySeconds = 600, sessionStartTime = 1000, timerState = RUNNING,
       weekday = 2, isValid = True\<rparr>
        3 1060 (timer_begin 3600 0 ScreenTimer_new)
      = (False, (timer_begin 3600 0 ScreenTimer_new))"
  using restore_rejects_day_change
    [where s = "\<lparr>consumedTodaySeconds = 600, sessionStartTime = 1000, timerState = RUNNING,
       weekday = 2, isValid = True\<rparr>"
       and currentWeekday = 3 and now = 1060
       and t = "timer_begin 3600 0 ScreenTimer_new"]
  by simp

text \<open>
  C2, as the code has it. For every valid snapshot whose weekday is the current
  weekday, whose state is Running and whose start timestamp is positive: if the
  seconds elapsed since that timestamp, added to the snapshot's consumed
  seconds, reach the allowance, then \<^verbatim>\<open>restoreFromSnapshot\<close> leaves the timer
  Expired with \<^verbatim>\<open>consumedTodaySeconds\<close> equal to \<^verbatim>\<open>totalAllowanceSeconds\<close>, no
  session start and remaining time 0, and it returns false: the boolean reports
  that no session is running after the restoration.
\<close>

theorem restore_session_expired_while_suspended:
  assumes "isValid s" "weekday s = currentWeekday" "timerState s = RUNNING"
    "0 < sessionStartTime s"
    "t_totalAllowanceSeconds t \<le> consumedTodaySeconds s + sessionElapsed (sessionStartTime s) now"
  shows "restoreFromSnapshot s currentWeekday now t =
           (False, t\<lparr>t_state := EXPIRED,
                     t_consumedTodaySeconds := t_totalAllowanceSeconds t,
                     t_sessionStartTime := 0\<rparr>)
         \<and> calculateRemainingSeconds now' (snd (restoreFromSnapshot s currentWeekday now t)) = 0"
  using assms
  by (simp add: restoreFromSnapshot_def setConsumedTodaySeconds_def startFromTimestamp_def Let_def
        calculateRemainingSeconds_def getTotalConsumedSeconds_def calculateCurrentSessionSeconds_def)

theorem restore_session_expired_while_suspended_witness:
  "isValid \<lparr>consumedTodaySeconds = 1200, sessionStartTime = 5000, timerState = RUNNING,
       weekday = 5, isValid = True\<rparr>
   \<and> weekday \<lparr>consumedTodaySeconds = 1200, sessionStartTime = 5000, timerState = RUNNING,
       weekday = 5, isValid = True\<rparr> = 5
   \<and> timerState \<lparr>consumedTodaySeconds = 1200, sessionStartTime = 5000, timerState = RUNNING,
       weekday = 5, isValid = True\<rparr> = RUNNING
   \<and> 0 < sessionStartTime \<lparr>consumedTodaySeconds = 1200, sessionStartTime = 5000, timerState = RUNNING,
       weekday = 5, isValid = True\<rparr>
   \<and> t_totalAllowanceSeconds (timer_begin 3600 0 ScreenTimer_new)
       \<le> consumedTodaySeconds \<lparr>consumedTodaySeconds = 1200, sessionStartTime = 5000, timerState = RUNNING,
       weekday = 5, isValid = True\<rparr>
          + sessionElapsed (sessionStartTime \<lparr>consumedTodaySeconds = 1200, sessionStartTime = 5000, timerState = RUNNING,
       weekday = 5, isValid = True\<rparr>) 8000
   \<and> restoreFromSnapshot \<lparr>consumedTodaySeconds = 1200, sessionStartTime = 5000, timerState = RUNNING,
       weekday = 5, isValid = True\<rparr>
        5 8000 (timer_begin 3600 0 ScreenTimer_new)
      = (False, \<lparr>t_state = EXPIRED, t_totalAllowanceSeconds = 3600,
                 t_consumedTodaySeconds = 3600, t_sessionStartTime = 0\<rparr>)"
  using restore_session_expired_while_suspended
    [where s = "\<lparr>consumedTodaySeconds = 1200, sessionStartTime = 5000, timerState = RUNNING,
       weekday = 5, isValid = True\<rparr>"
       and currentWeekday = 5 and now = 8000 and now' = 8000
       and t = "timer_begin 3600 0 ScreenTimer_new"]
  by (simp add: timer_defs)

text \<open>
  The statement that such a restoration is reported as successful fails: a
  valid snapshot of the current weekday, Running since timestamp 1000 with 600
  seconds consumed, restored at 9000 against an allowance of 3600, leaves the
  timer Expired and returns false.
\<close>

theorem restore_expired_reported_successful_counterexample:
  "isValid \<lparr>consumedTodaySeconds = 600, sessionStartTime = 1000, timerState = RUNNING,
       weekday = 3, isValid = True\<rparr>
   \<and> weekday \<lparr>consumedTodaySeconds = 600, sessionStartTime = 1000, timerState = RUNNING,
       weekday = 3, isValid = True\<rparr> = 3
   \<and> timerState \<lparr>consumedTodaySeconds = 600, sessionStartTime = 1000, timerState = RUNNING,
       weekday = 3, isValid = True\<rparr> = RUNNING
   \<and> 0 < sessionStartTime \<lparr>consumedTodaySeconds = 600, sessionStartTime = 1000, timerState = RUNNING,
       weekday = 3, isValid = True\<rparr>
   \<and> \<not> fst (startFromTimestamp 1000 9000
              (setConsumedTodaySeconds 600 (timer_begin 3600 0 ScreenTimer_new)))
   \<and> restoreFromSnapshot \<lparr>consumedTodaySeconds = 600, sessionStartTime = 1000, timerState = RUNNING,
       weekday = 3, isValid = True\<rparr>
        3 9000 (timer_begin 3600 0 ScreenTimer_new)
      = (False, \<lparr>t_state = EXPIRED, t_totalAllowanceSeconds = 3600,
                 t_consumedTodaySeconds = 3600, t_sessionStartTime = 0\<rparr>)"
  by (simp add: timer_defs)

text \<open>
  C1. A snapshot created while a session is Running holds the completed
  sessions' total only (\<^verbatim>\<open>getCompletedSessionsSeconds\<close>, without the seconds of
  the session in flight) and the original start timestamp \<open>T\<close>. Restoring it on
  the same weekday, into a timer with the same allowance and while allowance
  remains, resumes the session from \<open>T\<close>; stopping it later returns and commits
  \<open>e1 + e2\<close>, where \<open>e1 = now0 - T\<close> had elapsed when the snapshot was taken and
  \<open>e2 = now2 - now0\<close> elapsed afterwards: the consumed total grows by the
  wall-clock span of the session, and \<open>e1\<close> is counted once.
\<close>

theorem snapshot_restore_no_double_count:
  assumes "t_state t = RUNNING" "t_sessionStartTime t = T" "0 < T"
    and "T \<le> now0" "now0 \<le> now1" "now1 \<le> now2"
    and "t_totalAllowanceSeconds t0 = t_totalAllowanceSeconds t"
    and "calculateRemainingSeconds now1 t \<noteq> 0"
  shows "consumedTodaySeconds (createSnapshot wd t) = getCompletedSessionsSeconds t
       \<and> consumedTodaySeconds (createSnapshot wd t) = t_consumedTodaySeconds t
       \<and> sessionStartTime (createSnapshot wd t) = T
       \<and> restoreFromSnapshot (createSnapshot wd t) wd now1 t0
           = (True, t0\<lparr>t_consumedTodaySeconds := t_consumedTodaySeconds t,
                        t_sessionStartTime := T, t_state := RUNNING\<rparr>)
       \<and> fst (stop 0 now2 (snd (restoreFromSnapshot (createSnapshot wd t) wd now1 t0)))
           = word_of_int ((now0 - T) + (now2 - now0))
       \<and> t_consumedTodaySeconds
            (snd (stop 0 now2 (snd (restoreFromSnapshot (createSnapshot wd t) wd now1 t0))))
           = t_consumedTodaySeconds t + word_of_int ((now0 - T) + (now2 - now0))
       \<and> (uint (t_consumedTodaySeconds t) + ((now0 - T) + (now2 - now0)) < 2 ^ 32 \<longrightarrow>
            uint (t_consumedTodaySeconds
              (snd (stop 0 now2 (snd (restoreFromSnapshot (createSnapshot wd t) wd now1 t0)))))
            = uint (t_consumedTodaySeconds t) + (now0 - T) + (now2 - now0))"
proof -
  let ?s = "createSnapshot wd t"
  let ?t1 = "t0\<lparr>t_consumedTodaySeconds := t_consumedTodaySeconds t,
                t_sessionStartTime := T, t_state := RUNNING\<rparr>"
  let ?e = "(now0 - T) + (now2 - now0)"
  have snap: "consumedTodaySeconds ?s = t_consumedTodaySeconds t" "sessionStartTime ?s = T"
    "timerState ?s = RUNNING" "weekday ?s = wd" "isValid ?s"
    using assms(1,2)
    by (simp_all add: createSnapshot_def getCompletedSessionsSeconds_def getSessionStartTime_def
          getState_def)
  have le: "T \<le> now1" "T \<noteq> 0" using assms by linarith+
  have "calculateCurrentSessionSeconds now1 t = word_of_int (now1 - T)"
    using calc_running [of t now1] assms(1,2) le by simp
  then have live: "\<not> t_totalAllowanceSeconds t \<le> t_consumedTodaySeconds t + word_of_int (now1 - T)"
    using assms(8)
    by (simp add: calculateRemainingSeconds_def getTotalConsumedSeconds_def Let_def
          split: if_splits del: of_int_diff)
  have el: "sessionElapsed T now1 = word_of_int (now1 - T)"
    using le by (simp add: sessionElapsed_def del: of_int_diff)
  have restore: "restoreFromSnapshot ?s wd now1 t0 = (True, ?t1)"
    using snap assms(3,7) le live el
    by (simp add: restoreFromSnapshot_def startFromTimestamp_def setConsumedTodaySeconds_def
          Let_def del: of_int_diff)
  have span: "?e = now2 - T" "0 \<le> ?e" using assms by linarith+
  have cur: "calculateCurrentSessionSeconds now2 ?t1 = word_of_int ?e"
    using calc_running [of ?t1 now2] le span assms by (simp del: of_int_diff of_int_add)
  have st: "stop 0 now2 ?t1 = (word_of_int ?e,
       ?t1\<lparr>t_consumedTodaySeconds := t_consumedTodaySeconds t + word_of_int ?e,
            t_sessionStartTime := 0, t_state := STOPPED\<rparr>)"
    using cur by (simp add: stop_def Let_def del: of_int_add of_int_diff)
  have nowrap: "uint (t_consumedTodaySeconds t) + ?e < 2 ^ 32 \<Longrightarrow>
      uint (t_consumedTodaySeconds t + word_of_int ?e)
        = uint (t_consumedTodaySeconds t) + (now0 - T) + (now2 - now0)"
    using uint_add_elapsed [of ?e "t_consumedTodaySeconds t"] span(2) by simp
  show ?thesis
    using snap restore st nowrap
    by (simp add: getCompletedSessionsSeconds_def del: of_int_add of_int_diff)
qed

theorem snapshot_restore_no_double_count_witness:
  "t_state \<lparr>t_state = RUNNING, t_totalAllowanceSeconds = 3600,
       t_consumedTodaySeconds = 100, t_sessionStartTime = 1000\<rparr> = RUNNING
   \<and> (0 :: int) < 1000 \<and> (1000 :: int) \<le> 1060 \<and> (1060 :: int) \<le> 1070
   \<and> (1070 :: int) \<le> 1200
   \<and> t_totalAllowanceSeconds (timer_begin 3600 0 ScreenTimer_new) = 3600
   \<and> calculateRemainingSeconds 1070 \<lparr>t_state = RUNNING, t_totalAllowanceSeconds = 3600,
       t_consumedTodaySeconds = 100, t_sessionStartTime = 1000\<rparr> \<noteq> 0
   \<and> uint (100 :: 32 word) + ((1060 - 1000) + (1200 - 1060)) < 2 ^ 32
   \<and> createSnapshot 3 \<lparr>t_state = RUNNING, t_totalAllowanceSeconds = 3600,
       t_consumedTodaySeconds = 100, t_sessionStartTime = 1000\<rparr>
       = \<lparr>consumedTodaySeconds = 100, sessionStartTime = 1000, timerState = RUNNING,
          weekday = 3, isValid = True\<rparr>
   \<and> stop 0 1200 (snd (restoreFromSnapshot
        (createSnapshot 3 \<lparr>t_state = RUNNING, t_totalAllowanceSeconds = 3600,
       t_consumedTodaySeconds = 100, t_sessionStartTime = 1000\<rparr>)
        3 1070 (timer_begin 3600 0 ScreenTimer_new)))
      = (200, \<lparr>t_state = STOPPED, t_totalAllowanceSeconds = 3600,
                t_consumedTodaySeconds = 300, t_sessionStartTime = 0\<rparr>)"
  using snapshot_restore_no_double_count
    [where t = "\<lparr>t_state = RUNNING, t_totalAllowanceSeconds = 3600,
       t_consumedTodaySeconds = 100, t_sessionStartTime = 1000\<rparr>"
       and T = 1000 and ?now0.0 = 1060 and ?now1.0 = 1070 and ?now2.0 = 1200 and wd = 3
       and ?t0.0 = "timer_begin 3600 0 ScreenTimer_new"]
  by (simp add: timer_defs)


section \<open>Expiry\<close>

text \<open>
  C5, as the code has it. If \<^verbatim>\<open>update()\<close> is called while the timer is Running
  and the remaining time it computes is 0, the timer becomes Expired with
  \<^verbatim>\<open>consumedTodaySeconds\<close> set to \<^verbatim>\<open>totalAllowanceSeconds\<close> and the session start
  set to 0, and a following \<^verbatim>\<open>start()\<close> returns false and changes nothing.
  Concretely, with an allowance of 3600 seconds and a session started at a
  clock reading \<open>T0\<close> other than 0: at \<open>T0 + 3599\<close> one second remains and
  \<^verbatim>\<open>update()\<close> leaves the state Running; the \<^verbatim>\<open>update()\<close> at \<open>T0 + 3600\<close> makes
  the transition, after which 3600 seconds are consumed, none remain and
  \<^verbatim>\<open>start()\<close> is refused.
\<close>

theorem update_expiry_transition:
  "(t_state t = RUNNING \<and> calculateRemainingSeconds now t = 0 \<longrightarrow>
      update now t = t\<lparr>t_consumedTodaySeconds := t_totalAllowanceSeconds t,
                        t_sessionStartTime := 0, t_state := EXPIRED\<rparr>
      \<and> start now' (update now t) = (False, update now t))
   \<and> (T0 \<noteq> 0 \<longrightarrow>
        start T0 (timer_begin 3600 0 t0)
          = (True, \<lparr>t_state = RUNNING, t_totalAllowanceSeconds = 3600,
                    t_consumedTodaySeconds = 0, t_sessionStartTime = T0\<rparr>)
      \<and> calculateRemainingSeconds (T0 + 3599) (snd (start T0 (timer_begin 3600 0 t0))) = 1
      \<and> t_state (update (T0 + 3599) (snd (start T0 (timer_begin 3600 0 t0)))) = RUNNING
      \<and> update (T0 + 3600) (update (T0 + 3599) (snd (start T0 (timer_begin 3600 0 t0))))
          = \<lparr>t_state = EXPIRED, t_totalAllowanceSeconds = 3600,
             t_consumedTodaySeconds = 3600, t_sessionStartTime = 0\<rparr>
      \<and> calculateRemainingSeconds now''
           (update (T0 + 3600) (update (T0 + 3599) (snd (start T0 (timer_begin 3600 0 t0))))) = 0
      \<and> \<not> fst (start now''
           (update (T0 + 3600) (update (T0 + 3599) (snd (start T0 (timer_begin 3600 0 t0)))))))"
  by (simp add: timer_defs Let_def)

theorem update_expiry_transition_witness:
  "t_state \<lparr>t_state = RUNNING, t_totalAllowanceSeconds = 3600,
       t_consumedTodaySeconds = 0, t_sessionStartTime = 1000\<rparr> = RUNNING
   \<and> calculateRemainingSeconds 4700 \<lparr>t_state = RUNNING, t_totalAllowanceSeconds = 3600,
       t_consumedTodaySeconds = 0, t_sessionStartTime = 1000\<rparr> = 0
   \<and> update 4700 \<lparr>t_state = RUNNING, t_totalAllowanceSeconds = 3600,
       t_consumedTodaySeconds = 0, t_sessionStartTime = 1000\<rparr>
       = \<lparr>t_state = EXPIRED, t_totalAllowanceSeconds = 3600,
          t_consumedTodaySeconds = 3600, t_sessionStartTime = 0\<rparr>
   \<and> \<not> fst (start 4800 (update 4700 \<lparr>t_state = RUNNING, t_totalAllowanceSeconds = 3600,
       t_consumedTodaySeconds = 0, t_sessionStartTime = 1000\<rparr>))
   \<and> (1700000000 :: int) \<noteq> 0
   \<and> calculateRemainingSeconds (1700000000 + 3599)
        (snd (start 1700000000 (timer_begin 3600 0 ScreenTimer_new))) = 1
   \<and> t_state (update (1700000000 + 3600) (update (1700000000 + 3599)
        (snd (start 1700000000 (timer_begin 3600 0 ScreenTimer_new))))) = EXPIRED"
  using update_expiry_transition
    [where t = "\<lparr>t_state = RUNNING, t_totalAllowanceSeconds = 3600,
       t_consumedTodaySeconds = 0, t_sessionStartTime = 1000\<rparr>"
       and now = 4700 and now' = 4800 and ?T0.0 = 1700000000 and ?t0.0 = ScreenTimer_new
       and now'' = 1700003700]
  by (simp add: timer_defs)

text \<open>
  The scenario read with the clock at 0 when the session starts fails: the
  start timestamp recorded is then 0, the value that stands for no session, so
  no elapsed time is measured, and the \<^verbatim>\<open>update()\<close> at 3600 finds 3600 seconds
  remaining and leaves the state Running.
\<close>

theorem update_expiry_clock_zero_counterexample:
  "start 0 (timer_begin 3600 0 ScreenTimer_new)
     = (True, \<lparr>t_state = RUNNING, t_totalAllowanceSeconds = 3600,
               t_consumedTodaySeconds = 0, t_sessionStartTime = 0\<rparr>)
   \<and> calculateRemainingSeconds 3599 (snd (start 0 (timer_begin 3600 0 ScreenTimer_new))) = 3600
   \<and> calculateRemainingSeconds 3600 (snd (start 0 (timer_begin 3600 0 ScreenTimer_new))) = 3600
   \<and> t_state (update 3600 (update 3599 (snd (start 0 (timer_begin 3600 0 ScreenTimer_new)))))
       = RUNNING"
  by (simp add: timer_defs Let_def)

text \<open>
  C8, as the code has it. \<^verbatim>\<open>isExpired()\<close> is a read of the state: it is true
  exactly when the state is Expired, it takes no clock reading and, being a
  function of the timer to a boolean, changes no field. On a Running timer it
  is false, also when the wall-clock time has used up the allowance, until an
  operation sets the state: \<^verbatim>\<open>update()\<close> does so exactly when the remaining time
  it computes is 0, and so do \<^verbatim>\<open>start()\<close> (remaining time 0),
  \<^verbatim>\<open>startFromTimestamp\<close> (elapsed time reaches the allowance),
  \<^verbatim>\<open>setConsumedTodaySeconds\<close>, \<^verbatim>\<open>setAllowance\<close> and \<^verbatim>\<open>begin\<close> (consumed time
  reaches the allowance); \<^verbatim>\<open>stop\<close>, \<^verbatim>\<open>abortSession\<close>, \<^verbatim>\<open>toggle\<close>, \<^verbatim>\<open>reset\<close> and
  \<^verbatim>\<open>addAllowance\<close> never take a Running timer to Expired.
\<close>

theorem isExpired_state_read:
  assumes "t_state t = RUNNING"
  shows "(isExpired t' \<longleftrightarrow> t_state t' = EXPIRED)
       \<and> \<not> isExpired t
       \<and> (isExpired (update now t) \<longleftrightarrow> calculateRemainingSeconds now t = 0)
       \<and> (isExpired (snd (start now t)) \<longleftrightarrow> calculateRemainingSeconds now t = 0)
       \<and> (isExpired (snd (startFromTimestamp ts now t))
            \<longleftrightarrow> t_totalAllowanceSeconds t \<le> t_consumedTodaySeconds t + sessionElapsed ts now)
       \<and> (isExpired (setConsumedTodaySeconds c t) \<longleftrightarrow> t_totalAllowanceSeconds t \<le> c)
       \<and> (isExpired (setAllowance a t) \<longleftrightarrow> a \<noteq> 0 \<and> a \<le> t_consumedTodaySeconds t)
       \<and> (isExpired (timer_begin a c t) \<longleftrightarrow> a \<le> c)
       \<and> \<not> isExpired (snd (stop m now t))
       \<and> \<not> isExpired (abortSession t)
       \<and> \<not> isExpired (snd (toggle now t))
       \<and> \<not> isExpired (reset a t)
       \<and> \<not> isExpired (addAllowance d now t)"
  using assms
  by (simp add: isExpired_def update_def start_def startFromTimestamp_def
        setConsumedTodaySeconds_def setAllowance_def timer_begin_def stop_def abortSession_def
        toggle_def reset_def addAllowance_def Let_def)

theorem isExpired_state_read_witness:
  "t_state \<lparr>t_state = RUNNING, t_totalAllowanceSeconds = 3600,
       t_consumedTodaySeconds = 100, t_sessionStartTime = 1000\<rparr> = RUNNING
   \<and> calculateRemainingSeconds 5000 \<lparr>t_state = RUNNING, t_totalAllowanceSeconds = 3600,
       t_consumedTodaySeconds = 100, t_sessionStartTime = 1000\<rparr> = 0
   \<and> \<not> isExpired \<lparr>t_state = RUNNING, t_totalAllowanceSeconds = 3600,
       t_consumedTodaySeconds = 100, t_sessionStartTime = 1000\<rparr>
   \<and> isExpired (update 5000 \<lparr>t_state = RUNNING, t_totalAllowanceSeconds = 3600,
       t_consumedTodaySeconds = 100, t_sessionStartTime = 1000\<rparr>)"
  using isExpired_state_read
    [where t = "\<lparr>t_state = RUNNING, t_totalAllowanceSeconds = 3600,
       t_consumedTodaySeconds = 100, t_sessionStartTime = 1000\<rparr>"
       and now = 5000]
  by (simp add: timer_defs)

text \<open>
  That only \<^verbatim>\<open>update()\<close> takes a Running timer to Expired fails: on a timer
  Running since 1000 with 100 of 3600 seconds consumed, \<^verbatim>\<open>start()\<close> at 5000,
  \<^verbatim>\<open>startFromTimestamp(1000)\<close> at 5000 and \<^verbatim>\<open>setAllowance(50)\<close> each leave
  \<^verbatim>\<open>isExpired()\<close> true without any call of \<^verbatim>\<open>update()\<close>.
\<close>

theorem expiry_only_by_update_counterexample:
  "t_state \<lparr>t_state = RUNNING, t_totalAllowanceSeconds = 3600,
       t_consumedTodaySeconds = 100, t_sessionStartTime = 1000\<rparr> = RUNNING
   \<and> \<not> isExpired \<lparr>t_state = RUNNING, t_totalAllowanceSeconds = 3600,
       t_consumedTodaySeconds = 100, t_sessionStartTime = 1000\<rparr>
   \<and> isExpired (snd (start 5000 \<lparr>t_state = RUNNING, t_totalAllowanceSeconds = 3600,
       t_consumedTodaySeconds = 100, t_sessionStartTime = 1000\<rparr>))
   \<and> isExpired (snd (startFromTimestamp 1000 5000 \<lparr>t_state = RUNNING, t_totalAllowanceSeconds = 3600,
       t_consumedTodaySeconds = 100, t_sessionStartTime = 1000\<rparr>))
   \<and> isExpired (setAllowance 50 \<lparr>t_state = RUNNING, t_totalAllowanceSeconds = 3600,
       t_consumedTodaySeconds = 100, t_sessionStartTime = 1000\<rparr>)"
  by (simp add: timer_defs)

section \<open>The invariant between state and session start\<close>

text \<open>
  From a timer that satisfies the invariant, every operation keeps it, where
  \<^verbatim>\<open>start()\<close> and \<^verbatim>\<open>toggle()\<close> act on a timer that is not Running at a clock
  reading other than 0 and \<^verbatim>\<open>startFromTimestamp\<close> gets a positive timestamp at
  a positive clock reading.
\<close>

lemma timer_inv_operations:
  assumes "timer_inv t"
  shows "timer_inv (timer_begin a c t)" "timer_inv (reset a t)"
    "timer_inv (snd (stop m now t))" "timer_inv (abortSession t)"
    "timer_inv (update now t)" "timer_inv (setConsumedTodaySeconds c t)"
    "timer_inv (setAllowance a t)" "timer_inv (addAllowance d now t)"
    "t_state t \<noteq> RUNNING \<Longrightarrow> now \<noteq> 0 \<Longrightarrow> timer_inv (snd (start now t))"
    "t_state t \<noteq> RUNNING \<Longrightarrow> now \<noteq> 0 \<Longrightarrow> timer_inv (snd (toggle now t))"
    "t_state t = RUNNING \<Longrightarrow> timer_inv (snd (toggle now t))"
    "0 < ts \<Longrightarrow> 0 < now \<Longrightarrow> timer_inv (snd (startFromTimestamp ts now t))"
  using assms
  by (auto simp add: timer_inv_def timer_begin_def reset_def stop_def abortSession_def update_def
        setConsumedTodaySeconds_def setAllowance_def addAllowance_def start_def toggle_def
        startFromTimestamp_def Let_def)

text \<open>
  C6. Every public operation of the timer is to keep the invariant: the state is
  Running exactly when the session start is not 0. \<^verbatim>\<open>start()\<close> does not: after
  \<^verbatim>\<open>begin(3600)\<close> and \<^verbatim>\<open>start()\<close> at clock reading 1000 the invariant holds, and a
  second \<^verbatim>\<open>start()\<close> at 5000, when the running session has used up the
  allowance, sets the state to Expired and leaves the session start at 1000.
\<close>

theorem start_on_exhausted_running_timer_breaks_invariant:
  "start 1000 (timer_begin 3600 0 ScreenTimer_new)
     = (True, \<lparr>t_state = RUNNING, t_totalAllowanceSeconds = 3600,
               t_consumedTodaySeconds = 0, t_sessionStartTime = 1000\<rparr>)
   \<and> timer_inv (snd (start 1000 (timer_begin 3600 0 ScreenTimer_new)))
   \<and> start 5000 (snd (start 1000 (timer_begin 3600 0 ScreenTimer_new)))
     = (False, \<lparr>t_state = EXPIRED, t_totalAllowanceSeconds = 3600,
                t_consumedTodaySeconds = 0, t_sessionStartTime = 1000\<rparr>)
   \<and> \<not> timer_inv (snd (start 5000 (snd (start 1000 (timer_begin 3600 0 ScreenTimer_new)))))"
  by (simp add: timer_defs timer_inv_def)


section \<open>Conservation of consumed time over a sequence of calls\<close>

lemma start_idle:
  assumes "t_state t \<noteq> RUNNING"
  shows "snd (start now t) =
           (if uint (t_consumedTodaySeconds t) < uint (t_totalAllowanceSeconds t)
            then t\<lparr>t_sessionStartTime := now, t_state := RUNNING\<rparr>
            else t\<lparr>t_state := EXPIRED\<rparr>)"
proof (cases "t_totalAllowanceSeconds t \<le> t_consumedTodaySeconds t")
  case True
  then have "\<not> uint (t_consumedTodaySeconds t) < uint (t_totalAllowanceSeconds t)"
    by (simp add: word_le_def)
  then show ?thesis
    using True assms
    by (simp add: start_def calculateRemainingSeconds_def getTotalConsumedSeconds_def
          calc_not_running)
next
  case False
  then have lt: "uint (t_consumedTodaySeconds t) < uint (t_totalAllowanceSeconds t)"
    by (simp add: word_le_def)
  have "t_totalAllowanceSeconds t - t_consumedTodaySeconds t \<noteq> 0"
    using False by auto
  then show ?thesis
    using False assms lt
    by (simp add: start_def calculateRemainingSeconds_def getTotalConsumedSeconds_def
          calc_not_running)
qed

lemma start_running_with_time_left:
  assumes "t_state t = RUNNING" "t_sessionStartTime t \<noteq> 0" "t_sessionStartTime t \<le> now"
    "uint (t_consumedTodaySeconds t) + (now - t_sessionStartTime t)
       < uint (t_totalAllowanceSeconds t)"
  shows "snd (start now t) = t"
proof -
  let ?e = "now - t_sessionStartTime t"
  have cur: "calculateCurrentSessionSeconds now t = word_of_int ?e"
    using calc_running [OF assms(1,2,3)] .
  have bound: "uint (t_totalAllowanceSeconds t) < 2 ^ 32"
    using uint_bounded [of "t_totalAllowanceSeconds t"] by simp
  have tot: "uint (t_consumedTodaySeconds t + word_of_int ?e) = uint (t_consumedTodaySeconds t) + ?e"
    using uint_add_elapsed [of ?e "t_consumedTodaySeconds t"] assms(3,4) bound by simp
  have less: "\<not> t_totalAllowanceSeconds t \<le> t_consumedTodaySeconds t + word_of_int ?e"
    using tot assms(4) by (simp add: word_le_def)
  then have "t_totalAllowanceSeconds t - (t_consumedTodaySeconds t + word_of_int ?e) \<noteq> 0"
    by auto
  then show ?thesis
    using less assms(1) cur
    by (simp add: start_def calculateRemainingSeconds_def getTotalConsumedSeconds_def
          del: of_int_diff)
qed

lemma stop_running:
  assumes "t_state t = RUNNING" "t_sessionStartTime t \<noteq> 0" "t_sessionStartTime t \<le> now"
    "uint (t_consumedTodaySeconds t) + (now - t_sessionStartTime t) < 2 ^ 32"
  shows "t_state (snd (stop 0 now t)) = STOPPED
       \<and> uint (t_consumedTodaySeconds (snd (stop 0 now t)))
           = uint (t_consumedTodaySeconds t) + (now - t_sessionStartTime t)
       \<and> t_totalAllowanceSeconds (snd (stop 0 now t)) = t_totalAllowanceSeconds t"
proof -
  have cur: "calculateCurrentSessionSeconds now t = word_of_int (now - t_sessionStartTime t)"
    using calc_running [OF assms(1,2,3)] .
  have "uint (t_consumedTodaySeconds t + word_of_int (now - t_sessionStartTime t))
      = uint (t_consumedTodaySeconds t) + (now - t_sessionStartTime t)"
    using uint_add_elapsed [of "now - t_sessionStartTime t" "t_consumedTodaySeconds t"] assms(3,4)
    by simp
  then show ?thesis
    using assms(1) cur by (simp add: stop_def Let_def del: of_int_diff)
qed

lemma update_running:
  assumes "t_state t = RUNNING" "t_sessionStartTime t \<noteq> 0" "t_sessionStartTime t \<le> now"
    "uint (t_consumedTodaySeconds t) + (now - t_sessionStartTime t)
       \<le> uint (t_totalAllowanceSeconds t)"
  shows "update now t =
           (if uint (t_totalAllowanceSeconds t)
                 \<le> uint (t_consumedTodaySeconds t) + (now - t_sessionStartTime t)
            then t\<lparr>t_consumedTodaySeconds := t_totalAllowanceSeconds t,
                   t_sessionStartTime := 0, t_state := EXPIRED\<rparr>
            else t)"
proof -
  let ?e = "now - t_sessionStartTime t"
  have cur: "calculateCurrentSessionSeconds now t = word_of_int ?e"
    using calc_running [OF assms(1,2,3)] .
  have bound: "uint (t_totalAllowanceSeconds t) < 2 ^ 32"
    using uint_bounded [of "t_totalAllowanceSeconds t"] by simp
  have tot: "uint (t_consumedTodaySeconds t + word_of_int ?e) = uint (t_consumedTodaySeconds t) + ?e"
    using uint_add_elapsed [of ?e "t_consumedTodaySeconds t"] assms(3,4) bound by simp
  show ?thesis
  proof (cases "t_totalAllowanceSeconds t \<le> t_consumedTodaySeconds t + word_of_int ?e")
    case True
    then have "uint (t_totalAllowanceSeconds t) \<le> uint (t_consumedTodaySeconds t) + ?e"
      using tot by (simp add: word_le_def)
    then show ?thesis
      using True assms(1) cur
      by (simp add: update_def calculateRemainingSeconds_def getTotalConsumedSeconds_def
            del: of_int_diff)
  next
    case False
    then have less: "\<not> uint (t_totalAllowanceSeconds t) \<le> uint (t_consumedTodaySeconds t) + ?e"
      using tot by (simp add: word_le_def)
    have "t_totalAllowanceSeconds t - (t_consumedTodaySeconds t + word_of_int ?e) \<noteq> 0"
      using False by auto
    then show ?thesis
      using False less assms(1) cur
      by (simp add: update_def calculateRemainingSeconds_def getTotalConsumedSeconds_def
            del: of_int_diff)
  qed
qed

lemma idle_calls:
  assumes "t_state t \<noteq> RUNNING"
  shows "update now t = t" "snd (stop 0 now t) = t"
  using assms by (simp_all add: update_def stop_def)

text \<open>One orderly call keeps the timer in agreement with the account.\<close>

lemma step_linked:
  assumes "linked t g" "callOrderly A x g" "A = uint (t_totalAllowanceSeconds t)"
  shows "linked (step x t) (sessionStep A x g)
       \<and> t_totalAllowanceSeconds (step x t) = t_totalAllowanceSeconds t"
proof (cases g)
  case (Pair c opn)
  show ?thesis
  proof (cases opn)
    case None
    then have idle: "t_state t \<noteq> RUNNING" and c: "uint (t_consumedTodaySeconds t) = c"
      using assms(1) Pair by (simp_all add: linked_def)
    show ?thesis
    proof (cases x)
      case (Start now)
      then show ?thesis
        using start_idle [OF idle, of now] assms(2,3) Pair None c
        by (simp add: linked_def)
    next
      case (Update now)
      then show ?thesis
        using idle_calls(1) [OF idle, of now] assms(1) Pair None by simp
    next
      case (Stop now)
      then show ?thesis
        using idle_calls(2) [OF idle, of now] assms(1) Pair None by simp
    qed
  next
    case (Some s)
    then have run: "t_state t = RUNNING" and s: "t_sessionStartTime t = s" "s \<noteq> 0"
      and c: "uint (t_consumedTodaySeconds t) = c"
      using assms(1) Pair by (simp_all add: linked_def)
    have nz: "t_sessionStartTime t \<noteq> 0" using s by simp
    show ?thesis
    proof (cases x)
      case (Start now)
      then have "t_sessionStartTime t \<le> now"
        "uint (t_consumedTodaySeconds t) + (now - t_sessionStartTime t)
           < uint (t_totalAllowanceSeconds t)"
        using assms(2,3) Pair Some s c by simp_all
      then have "snd (start now t) = t"
        using start_running_with_time_left [OF run nz] by simp
      then show ?thesis
        using Start assms(1) Pair Some by simp
    next
      case (Update now)
      then have le: "t_sessionStartTime t \<le> now"
        "uint (t_consumedTodaySeconds t) + (now - t_sessionStartTime t)
           \<le> uint (t_totalAllowanceSeconds t)"
        using assms(2,3) Pair Some s c by simp_all
      show ?thesis
        using update_running [OF run nz le] le(2) Update assms(1,3) Pair Some s c
        by (auto simp add: linked_def)
    next
      case (Stop now)
      then have le: "t_sessionStartTime t \<le> now"
        "uint (t_consumedTodaySeconds t) + (now - t_sessionStartTime t) < 2 ^ 32"
        using assms(2) Pair Some s c by simp_all
      show ?thesis
        using stop_running [OF run nz le] Stop Pair Some s c
        by (simp add: linked_def)
    qed
  qed
qed

lemma run_linked:
  "linked t g \<Longrightarrow> orderly A xs g \<Longrightarrow> A = uint (t_totalAllowanceSeconds t) \<Longrightarrow>
     linked (run xs t) (sessionRun A xs g)
   \<and> t_totalAllowanceSeconds (run xs t) = t_totalAllowanceSeconds t"
proof (induction xs arbitrary: t g)
  case Nil
  then show ?case by simp
next
  case (Cons x xs)
  have one: "linked (step x t) (sessionStep A x g)"
    "t_totalAllowanceSeconds (step x t) = t_totalAllowanceSeconds t"
    using step_linked [of t g A x] Cons.prems by simp_all
  have rest: "orderly A xs (sessionStep A x g)"
    using Cons.prems(2) by simp
  have "A = uint (t_totalAllowanceSeconds (step x t))"
    using Cons.prems(3) one(2) by simp
  then show ?case
    using Cons.IH [OF one(1) rest] one(2) by simp
qed

text \<open>The seconds of an account are those it started with and the durations of
  the sessions that have ended since.\<close>

lemma sessionRun_total:
  "fst (sessionRun A xs g) = fst g + sum_list (sessionDurations A xs g)"
proof (induction xs arbitrary: g)
  case Nil
  then show ?case by simp
next
  case (Cons x xs)
  obtain c opn where g: "g = (c, opn)" by (cases g)
  have IH: "fst (sessionRun A xs (sessionStep A x g))
      = fst (sessionStep A x g) + sum_list (sessionDurations A xs (sessionStep A x g))"
    using Cons.IH [of "sessionStep A x g"] .
  show ?case
  proof (cases x)
    case (Start now)
    then show ?thesis using IH g by (cases opn) simp_all
  next
    case (Update now)
    then show ?thesis using IH g by (cases opn) simp_all
  next
    case (Stop now)
    then show ?thesis using IH g by (cases opn) simp_all
  qed
qed

text \<open>
  C3, as the code has it. For every orderly sequence of \<^verbatim>\<open>start()\<close>,
  \<^verbatim>\<open>update()\<close> and \<^verbatim>\<open>stop(0)\<close> calls on a timer that is not Running, with a fixed
  allowance \<open>A\<close> and no reset (the clock not going back behind the start of an
  open session, no session opened at clock reading 0, no \<^verbatim>\<open>start()\<close> during a
  session without time remaining, every \<^verbatim>\<open>update()\<close> during a session no later
  than the second at which the allowance is used up, totals below \<open>2 ^ 32\<close>):
  \<^verbatim>\<open>consumedTodaySeconds\<close> grows by the sum of the wall-clock durations of the
  sessions, each measured from the clock reading of the \<^verbatim>\<open>start()\<close> that opened
  it to that of the call that ended it; the allowance stays \<open>A\<close>; the timer is
  Running exactly when a session is still open; and once all sessions are
  complete \<^verbatim>\<open>calculateRemainingSeconds()\<close> is \<open>A\<close> minus the consumed total,
  clamped at 0.
\<close>

theorem consumed_time_conservation:
  assumes "t_state t \<noteq> RUNNING"
    and "orderly (uint (t_totalAllowanceSeconds t)) xs (uint (t_consumedTodaySeconds t), None)"
  shows "uint (t_consumedTodaySeconds (run xs t))
           = uint (t_consumedTodaySeconds t)
             + sum_list (sessionDurations (uint (t_totalAllowanceSeconds t)) xs
                           (uint (t_consumedTodaySeconds t), None))
       \<and> t_totalAllowanceSeconds (run xs t) = t_totalAllowanceSeconds t
       \<and> (t_state (run xs t) = RUNNING \<longleftrightarrow>
            snd (sessionRun (uint (t_totalAllowanceSeconds t)) xs
                   (uint (t_consumedTodaySeconds t), None)) \<noteq> None)
       \<and> (snd (sessionRun (uint (t_totalAllowanceSeconds t)) xs
                   (uint (t_consumedTodaySeconds t), None)) = None \<longrightarrow>
            uint (calculateRemainingSeconds now (run xs t))
              = max 0 (uint (t_totalAllowanceSeconds t)
                       - uint (t_consumedTodaySeconds (run xs t))))"
proof -
  let ?A = "uint (t_totalAllowanceSeconds t)"
  let ?g = "(uint (t_consumedTodaySeconds t), None :: time_t option)"
  have "linked t ?g" using assms(1) by (simp add: linked_def)
  then have l: "linked (run xs t) (sessionRun ?A xs ?g)"
    and a: "t_totalAllowanceSeconds (run xs t) = t_totalAllowanceSeconds t"
    using run_linked [of t ?g ?A xs] assms(2) by simp_all
  have total: "uint (t_consumedTodaySeconds (run xs t))
      = uint (t_consumedTodaySeconds t) + sum_list (sessionDurations ?A xs ?g)"
    using l sessionRun_total [of ?A xs ?g] by (simp add: linked_def)
  have state: "t_state (run xs t) = RUNNING \<longleftrightarrow> snd (sessionRun ?A xs ?g) \<noteq> None"
    using l by (auto simp add: linked_def split: option.splits)
  have "snd (sessionRun ?A xs ?g) = None \<Longrightarrow>
      uint (calculateRemainingSeconds now (run xs t))
        = max 0 (uint (t_totalAllowanceSeconds t) - uint (t_consumedTodaySeconds (run xs t)))"
    using state remaining_idle [of "run xs t" now] a by simp
  then show ?thesis
    using total a state by blast
qed

theorem consumed_time_conservation_witness:
  "t_state (timer_begin 360 0 ScreenTimer_new) \<noteq> RUNNING
   \<and> orderly (uint (t_totalAllowanceSeconds (timer_begin 360 0 ScreenTimer_new)))
        [Start 1000, Update 1030, Start 1040, Stop 1060,
         Start 2000, Update 2100, Update 2300, Stop 2400, Start 2500]
        (uint (t_consumedTodaySeconds (timer_begin 360 0 ScreenTimer_new)), None)
   \<and> sessionDurations 360
        [Start 1000, Update 1030, Start 1040, Stop 1060,
         Start 2000, Update 2100, Update 2300, Stop 2400, Start 2500] (0, None)
       = [60, 300]
   \<and> snd (sessionRun 360
        [Start 1000, Update 1030, Start 1040, Stop 1060,
         Start 2000, Update 2100, Update 2300, Stop 2400, Start 2500] (0, None)) = None
   \<and> t_consumedTodaySeconds
        (run [Start 1000, Update 1030, Start 1040, Stop 1060,
              Start 2000, Update 2100, Update 2300, Stop 2400, Start 2500]
           (timer_begin 360 0 ScreenTimer_new)) = 360
   \<and> t_state
        (run [Start 1000, Update 1030, Start 1040, Stop 1060,
              Start 2000, Update 2100, Update 2300, Stop 2400, Start 2500]
           (timer_begin 360 0 ScreenTimer_new)) = EXPIRED
   \<and> calculateRemainingSeconds 2500
        (run [Start 1000, Update 1030, Start 1040, Stop 1060,
              Start 2000, Update 2100, Update 2300, Stop 2400, Start 2500]
           (timer_begin 360 0 ScreenTimer_new)) = 0"
  using consumed_time_conservation
    [where t = "timer_begin 360 0 ScreenTimer_new"
       and xs = "[Start 1000, Update 1030, Start 1040, Stop 1060,
                  Start 2000, Update 2100, Update 2300, Stop 2400, Start 2500]"
       and now = 2500]
  by (simp add: timer_defs Let_def)

text \<open>
  For any sequence the statement fails: with an allowance of 100 seconds, a
  session started at 1000 and found exhausted by the \<^verbatim>\<open>update()\<close> at 1150 has
  lasted 150 seconds, and the timer commits the allowance, 100 seconds; the
  \<^verbatim>\<open>stop(0)\<close> that follows finds no running session and adds nothing.
\<close>

theorem consumed_time_capped_at_expiry_counterexample:
  "run [Start 1000, Update 1150, Stop 1150] (timer_begin 100 0 ScreenTimer_new)
     = \<lparr>t_state = EXPIRED, t_totalAllowanceSeconds = 100,
        t_consumedTodaySeconds = 100, t_sessionStartTime = 0\<rparr>
   \<and> sessionDurations 100 [Start 1000, Update 1150, Stop 1150] (0, None) = [150]
   \<and> uint (t_consumedTodaySeconds
        (run [Start 1000, Update 1150, Stop 1150] (timer_begin 100 0 ScreenTimer_new)))
      \<noteq> uint (t_consumedTodaySeconds (timer_begin 100 0 ScreenTimer_new))
        + sum_list (sessionDurations
            (uint (t_totalAllowanceSeconds (timer_begin 100 0 ScreenTimer_new)))
            [Start 1000, Update 1150, Stop 1150]
            (uint (t_consumedTodaySeconds (timer_begin 100 0 ScreenTimer_new)), None))"
  by (simp add: timer_defs Let_def)

end
